theory Spec2Isabelle
  imports Main "HOL-Library.Sublist"
begin

section \<open>Data model\<close>

text \<open>
  Strings are HOL strings. The program compares strings for equality, tests a prefix,
  splits at the two ASCII characters comma, space and cuts the two brackets from each
  side of a rendered link; all of these read the same on the characters of a string
  and on its UTF-8 bytes.
\<close>

text \<open>
  The exceptions that the decision functions and the diff scraper of \<^verbatim>\<open>main.py\<close> raise or
  catch by name. \<open>OtherError\<close> stands for any other exception that one of the library
  calls (pywikibot, lxml) may raise; no handler of the program catches it.
\<close>

datatype error =
    RuntimeError string
  | AttributeError
  | ValueError
  | NoUsernameError
  | InvalidTitleError
  | UnsupportedPageError
  | NoPageError
  | TypeError
  | OtherError string

text \<open>
  The value of an alias intent: the dictionary \<^verbatim>\<open>{'add': [...], 'remove': [...]}\<close> built by
  \<^verbatim>\<open>scrape_aliases_from_diff\<close>. An entry is the \<^verbatim>\<open>.text\<close> of an lxml element, which is
  \<^verbatim>\<open>None\<close> for an element without text, hence \<open>string option\<close>.
\<close>

record AliasDiff =
  add :: "string option list"
  remove :: "string option list"

text \<open>
  One entry of \<^verbatim>\<open>item_page.sitelinks\<close>, as the program reads it:
  \<^verbatim>\<open>sitelinks.get(key)\<close> may raise, \<^verbatim>\<open>str(connected_sitelink)\<close> may raise, or the
  string \<^verbatim>\<open>str(connected_sitelink)\<close> is obtained. The names \<^verbatim>\<open>NoUsername\<close> (line 294)
  and \<^verbatim>\<open>NoUsernameError\<close> (lines 358 and 365) of pywikibot are one exception.
\<close>

datatype sitelink = GetRaises error | StrRaises error | Link string

text \<open>
  The live state of an item page, as \<^verbatim>\<open>exists()\<close>, \<^verbatim>\<open>isRedirectPage()\<close> and \<^verbatim>\<open>get()\<close>
  deliver it. The dictionaries are association lists read with \<open>map_of\<close>; the empty
  dictionary is the empty list.
\<close>

record entity =
  item_exists :: bool
  isRedirectPage :: bool
  sitelinks :: "(string \<times> sitelink) list"
  labels :: "(string \<times> string) list"
  descriptions :: "(string \<times> string) list"
  aliases :: "(string \<times> string list) list"

text \<open>
  The page of a client project that a sitelink names: the outcome of
  \<^verbatim>\<open>project_page.exists()\<close> and of \<^verbatim>\<open>ItemPage.fromPage(project_page).title()\<close>.
\<close>

record project_page =
  page_exists :: "error + bool"
  connected_item :: "error + string"

text \<open>
  The remote wiki, as far as the decision functions read it.
  \<open>item_page w qid\<close> is \<^verbatim>\<open>pwb.ItemPage(REPO, qid)\<close>: \<open>Inl e\<close> when the first remote call,
  \<^verbatim>\<open>item_page.exists()\<close>, raises \<open>e\<close>, and the snapshot otherwise.
  \<open>project_page_of w key value\<close> is lines 301 to 305 and 370 to 374: resolving the site
  from the database name \<open>key\<close>, splitting its name at the colon and building the page
  titled \<open>value\<close>; \<open>Inl e\<close> when one of these steps raises \<open>e\<close> (no handler encloses them).
\<close>

record world =
  item_page :: "string \<Rightarrow> error + entity"
  project_page_of :: "string \<Rightarrow> string \<Rightarrow> error + project_page"

section \<open>String helpers\<close>

text \<open>Python's \<^verbatim>\<open>s[2:-2]\<close>.\<close>

definition slice_2_m2 :: "string \<Rightarrow> string" where
  "slice_2_m2 s = drop 2 (take (length s - 2) s)"

text \<open>Python's \<^verbatim>\<open>alias in xs\<close> for an alias that may be \<^verbatim>\<open>None\<close> and a list of strings.\<close>

definition alias_in :: "string option \<Rightarrow> string list \<Rightarrow> bool" where
  "alias_in alias xs = (alias \<in> set (map Some xs))"

section \<open>Decision functions\<close>

subsection \<open>Sitelinks\<close>

text \<open>The second attempt of \<^verbatim>\<open>should_patrol_sitelink_removal\<close> (lines 300 to 325).\<close>

definition sitelink_removal_second_attempt :: "world \<Rightarrow> string \<Rightarrow> string \<Rightarrow> string \<Rightarrow> error + bool" where
  "sitelink_removal_second_attempt w qid key value =
     (case project_page_of w key value of
        Inl err \<Rightarrow> Inl err
      | Inr page \<Rightarrow>
          (case page_exists page of
             Inl err \<Rightarrow> (if err = InvalidTitleError then Inr False else Inl err)
           | Inr ex \<Rightarrow>
               if \<not> ex then Inr True
               else (case connected_item page of
                       Inl err \<Rightarrow> (if err = NoPageError then Inr False else Inl err)
                     | Inr title \<Rightarrow> if qid \<noteq> title then Inr True else Inr False)))"

definition should_patrol_sitelink_removal :: "world \<Rightarrow> string \<Rightarrow> string \<Rightarrow> string \<Rightarrow> error + bool" where
  "should_patrol_sitelink_removal w qid key value =
     (case item_page w qid of
        Inl err \<Rightarrow> Inl err
      | Inr item \<Rightarrow>
          if \<not> item_exists item then Inr False
          else if isRedirectPage item then Inr False
          else if sitelinks item = [] then Inr False
          else (case map_of (sitelinks item) key of
                  Some (GetRaises err) \<Rightarrow> (if err = NoUsernameError then Inr False else Inl err)
                | Some (StrRaises err) \<Rightarrow> Inl err
                | Some (Link s) \<Rightarrow>
                    if slice_2_m2 s = value then Inr True
                    else sitelink_removal_second_attempt w qid key value
                | None \<Rightarrow> sitelink_removal_second_attempt w qid key value))"

text \<open>The second attempt of \<^verbatim>\<open>should_patrol_sitelink_addition\<close> (lines 369 to 395).\<close>

definition sitelink_addition_second_attempt :: "world \<Rightarrow> string \<Rightarrow> string \<Rightarrow> string \<Rightarrow> error + bool" where
  "sitelink_addition_second_attempt w qid key value =
     (case project_page_of w key value of
        Inl err \<Rightarrow> Inl err
      | Inr page \<Rightarrow>
          (case page_exists page of
             Inl err \<Rightarrow>
               (if err = InvalidTitleError then Inr False
                else if err = UnsupportedPageError then Inr False
                else Inl err)
           | Inr ex \<Rightarrow>
               if \<not> ex then Inr True
               else (case connected_item page of
                       Inl err \<Rightarrow> (if err = NoPageError then Inr False else Inl err)
                     | Inr title \<Rightarrow> if qid \<noteq> title then Inr True else Inr False)))"

definition should_patrol_sitelink_addition :: "world \<Rightarrow> string \<Rightarrow> string \<Rightarrow> string \<Rightarrow> error + bool" where
  "should_patrol_sitelink_addition w qid key value =
     (case item_page w qid of
        Inl err \<Rightarrow> Inl err
      | Inr item \<Rightarrow>
          if \<not> item_exists item then Inr False
          else if isRedirectPage item then Inr True
          else if sitelinks item = [] then Inr True
          else (case map_of (sitelinks item) key of
                  None \<Rightarrow> Inr True
                | Some (GetRaises err) \<Rightarrow> (if err = NoUsernameError then Inr False else Inl err)
                | Some (StrRaises err) \<Rightarrow> (if err = NoUsernameError then Inr False else Inl err)
                | Some (Link s) \<Rightarrow>
                    if slice_2_m2 s \<noteq> value then Inr True
                    else sitelink_addition_second_attempt w qid key value))"

text \<open>\<^verbatim>\<open>should_patrol_sitelink_deletion\<close> reads neither its arguments nor the wiki.\<close>

definition should_patrol_sitelink_deletion :: "string \<Rightarrow> string \<Rightarrow> 'v \<Rightarrow> error + bool" where
  "should_patrol_sitelink_deletion qid key value = Inr True"

subsection \<open>Labels\<close>

definition should_patrol_label_removal :: "world \<Rightarrow> string \<Rightarrow> string \<Rightarrow> string \<Rightarrow> error + bool" where
  "should_patrol_label_removal w qid key value =
     (case item_page w qid of
        Inl err \<Rightarrow> (if err = ValueError then Inr False else Inl err)
      | Inr item \<Rightarrow>
          if \<not> item_exists item then Inr False
          else if isRedirectPage item then Inr True
          else if labels item = [] then Inr False
          else (case map_of (labels item) key of
                  None \<Rightarrow> Inr False
                | Some l \<Rightarrow> if l = value then Inr True else Inr False))"

text \<open>
  A label stored under a key is a string, so the test \<^verbatim>\<open>labels.get(key) is not None\<close> of
  line 452 holds for every key of the dictionary.
\<close>

definition should_patrol_label_modification :: "world \<Rightarrow> string \<Rightarrow> string \<Rightarrow> string \<Rightarrow> error + bool" where
  "should_patrol_label_modification w qid key value =
     (case item_page w qid of
        Inl err \<Rightarrow> Inl err
      | Inr item \<Rightarrow>
          if \<not> item_exists item then Inr False
          else if isRedirectPage item then Inr True
          else if labels item = [] then Inr True
          else (case map_of (labels item) key of
                  None \<Rightarrow> Inr True
                | Some l \<Rightarrow> if l \<noteq> value then Inr True else Inr False))"

subsection \<open>Aliases\<close>

definition should_patrol_alias_additions :: "world \<Rightarrow> string \<Rightarrow> string \<Rightarrow> AliasDiff option \<Rightarrow> error + bool" where
  "should_patrol_alias_additions w qid key value =
     (case value of
        None \<Rightarrow> Inr False
      | Some diff \<Rightarrow>
          if length (remove diff) > 0 then Inr False
          else (case item_page w qid of
                  Inl err \<Rightarrow> Inl err
                | Inr item \<Rightarrow>
                    if \<not> item_exists item then Inr False
                    else if isRedirectPage item then Inr True
                    else if aliases item = [] then Inr True
                    else (case map_of (aliases item) key of
                            None \<Rightarrow> Inr True
                          | Some cur \<Rightarrow>
                              let aliases_still_existing = filter (\<lambda>alias. alias_in alias cur) (add diff)
                              in if length aliases_still_existing = 0 then Inr True else Inr False)))"

definition should_patrol_alias_removals :: "world \<Rightarrow> string \<Rightarrow> string \<Rightarrow> AliasDiff option \<Rightarrow> error + bool" where
  "should_patrol_alias_removals w qid key value =
     (case value of
        None \<Rightarrow> Inr False
      | Some diff \<Rightarrow>
          if length (add diff) > 0 then Inr False
          else (case item_page w qid of
                  Inl err \<Rightarrow> Inl err
                | Inr item \<Rightarrow>
                    if \<not> item_exists item then Inr False
                    else if isRedirectPage item then Inr True
                    else if aliases item = [] then Inr False
                    else (case map_of (aliases item) key of
                            None \<Rightarrow> Inr False
                          | Some cur \<Rightarrow>
                              let aliases_still_missing = filter (\<lambda>alias. \<not> alias_in alias cur) (remove diff)
                              in if length aliases_still_missing = 0 then Inr True else Inr False)))"

text \<open>
  In \<^verbatim>\<open>should_patrol_alias_modifications\<close> the comprehension of line 627 tests
  \<^verbatim>\<open>alias not in item_page.aliases.get(key)\<close> for each removed alias; where the key is
  missing, \<^verbatim>\<open>get\<close> returns \<^verbatim>\<open>None\<close> and the test raises \<^verbatim>\<open>TypeError\<close>, unless there is
  no removed alias to test.
\<close>

definition still_missing :: "string list option \<Rightarrow> string option list \<Rightarrow> error + string option list" where
  "still_missing cur removed =
     (case cur of
        Some xs \<Rightarrow> Inr (filter (\<lambda>alias. \<not> alias_in alias xs) removed)
      | None \<Rightarrow> if removed = [] then Inr [] else Inl TypeError)"

definition should_patrol_alias_modifications :: "world \<Rightarrow> string \<Rightarrow> string \<Rightarrow> AliasDiff option \<Rightarrow> error + bool" where
  "should_patrol_alias_modifications w qid key value =
     (case value of
        None \<Rightarrow> Inr False
      | Some diff \<Rightarrow>
          (case item_page w qid of
             Inl err \<Rightarrow> Inl err
           | Inr item \<Rightarrow>
               if \<not> item_exists item then Inr False
               else if isRedirectPage item then Inr True
               else if length (remove diff) > 0 \<and> aliases item = [] then Inr False
               else if length (remove diff) > 0 \<and> map_of (aliases item) key = None then Inr False
               else (case still_missing (map_of (aliases item) key) (remove diff) of
                       Inl err \<Rightarrow> Inl err
                     | Inr aliases_still_missing \<Rightarrow>
                         let aliases_still_existing =
                               (if aliases item = [] then []
                                else (case map_of (aliases item) key of
                                        None \<Rightarrow> []
                                      | Some cur \<Rightarrow> filter (\<lambda>alias. alias_in alias cur) (add diff)))
                         in if length aliases_still_missing = 0 \<and> length aliases_still_existing = 0
                            then Inr True else Inr False)))"

subsection \<open>Descriptions\<close>

definition should_patrol_description_removal :: "world \<Rightarrow> string \<Rightarrow> string \<Rightarrow> string \<Rightarrow> error + bool" where
  "should_patrol_description_removal w qid key value =
     (case item_page w qid of
        Inl err \<Rightarrow> Inl err
      | Inr item \<Rightarrow>
          if \<not> item_exists item then Inr False
          else if isRedirectPage item then Inr True
          else if descriptions item = [] then Inr False
          else (case map_of (descriptions item) key of
                  None \<Rightarrow> Inr False
                | Some d \<Rightarrow> if d = value then Inr True else Inr False))"

text \<open>
  Python's \<^verbatim>\<open>description.split(', ')\<close>: the string is cut at every occurrence of the
  two characters comma, space, scanning from the left; the result is never empty.
\<close>

fun split_comma_space :: "string \<Rightarrow> string list" where
  "split_comma_space [] = [[]]"
| "split_comma_space [c] = [[c]]"
| "split_comma_space (c # d # cs) =
     (if c = CHR '','' \<and> d = CHR '' '' then [] # split_comma_space cs
      else (case split_comma_space (d # cs) of
              [] \<Rightarrow> [[c]]
            | p # ps \<Rightarrow> (c # p) # ps))"

text \<open>Python's \<^verbatim>\<open>sep.join(parts)\<close>.\<close>

fun join :: "string \<Rightarrow> string list \<Rightarrow> string" where
  "join sep [] = []"
| "join sep [p] = p"
| "join sep (p # q # ps) = p @ sep @ join sep (q # ps)"

definition appendices :: "string list" where
  "appendices =
     [''#suggestededit-add 1.0'',
      ''#suggestededit-translate 1.0'',
      ''([[w:en:Wikipedia:Shortdesc helper|Shortdesc helper]])'']"

definition tidy_description :: "string \<Rightarrow> string" where
  "tidy_description description =
     (if CHR '','' \<notin> set description then description
      else let parts = split_comma_space description
           in if last parts \<notin> set appendices then description
              else join '', '' (butlast parts))"

definition should_patrol_description_modification :: "world \<Rightarrow> string \<Rightarrow> string \<Rightarrow> string \<Rightarrow> error + bool" where
  "should_patrol_description_modification w qid key value0 =
     (let value = tidy_description value0
      in case item_page w qid of
           Inl err \<Rightarrow> Inl err
         | Inr item \<Rightarrow>
             if \<not> item_exists item then Inr False
             else if isRedirectPage item then Inr True
             else if descriptions item = [] then Inr True
             else (case map_of (descriptions item) key of
                     None \<Rightarrow> Inr True
                   | Some d \<Rightarrow> if d \<noteq> value then Inr True else Inr False))"

section \<open>Scraping the aliases from a rendered diff\<close>

text \<open>
  What \<^verbatim>\<open>scrape_aliases_from_diff\<close> reads of the parsed HTML: of a \<^verbatim>\<open>td\<close> element its
  \<^verbatim>\<open>class\<close> attribute, its text and its first \<^verbatim>\<open>div\<close> child; of that \<^verbatim>\<open>div\<close> the text of
  its first \<^verbatim>\<open>del\<close> and \<^verbatim>\<open>ins\<close> children. \<open>None\<close> is Python's \<^verbatim>\<open>None\<close>: a missing
  attribute, text or child.
\<close>

record div_tag =
  del_text :: "string option option"
  ins_text :: "string option option"

record td_tag =
  td_cls :: "string option"
  td_text :: "string option"
  td_div :: "div_tag option"

type_synonym tr_tag = "td_tag list"

text \<open>
  The HTML parser of lxml is a parameter: \<open>parser diff\<close> is \<open>Inl e\<close> when
  \<^verbatim>\<open>etree.fromstring(diff, etree.HTMLParser())\<close> raises \<open>e\<close>, \<open>Inr None\<close> when it returns
  \<^verbatim>\<open>None\<close>, and otherwise the \<^verbatim>\<open>tr\<close> elements of the document in document order, each
  one as the list of its \<^verbatim>\<open>td\<close> children.
\<close>

type_synonym html_parser = "string \<Rightarrow> error + tr_tag list option"

text \<open>Python's \<^verbatim>\<open>str(td_tag.text)\<close>.\<close>

definition str_of_text :: "string option \<Rightarrow> string" where
  "str_of_text t = (case t of None \<Rightarrow> ''None'' | Some s \<Rightarrow> s)"

text \<open>
  The body of the inner loop for the cell \<open>td\<close> of the row numbered \<open>i\<close>; the state is the
  flag \<^verbatim>\<open>process_table_cells\<close> and the dictionary \<^verbatim>\<open>aliases\<close>.
\<close>

definition scrape_td :: "nat \<Rightarrow> td_tag \<Rightarrow> bool \<times> AliasDiff \<Rightarrow> error + bool \<times> AliasDiff" where
  "scrape_td i td st =
     (let process_table_cells = fst st; als = snd st;
          td_txt = str_of_text (td_text td)
      in if i mod 2 = 1 then
           (if td_cls td \<noteq> Some ''diff-lineno'' then Inr (False, als)
            else Inr (prefix ''aliases / '' td_txt, als))
         else if \<not> process_table_cells then Inr (process_table_cells, als)
         else
           (case (if td_cls td = Some ''diff-deletedline'' then
                    (case td_div td of
                       None \<Rightarrow> Inl AttributeError
                     | Some dv \<Rightarrow>
                         (case del_text dv of
                            None \<Rightarrow> Inl AttributeError
                          | Some t \<Rightarrow> Inr (als\<lparr>remove := remove als @ [t]\<rparr>)))
                  else Inr als) of
              Inl err \<Rightarrow> Inl err
            | Inr als1 \<Rightarrow>
                if td_cls td = Some ''diff-addedline'' then
                  (case td_div td of
                     None \<Rightarrow> Inl AttributeError
                   | Some dv \<Rightarrow>
                       (case ins_text dv of
                          None \<Rightarrow> Inl AttributeError
                        | Some t \<Rightarrow> Inr (process_table_cells, als1\<lparr>add := add als1 @ [t]\<rparr>)))
                else Inr (process_table_cells, als1)))"

fun scrape_tds :: "nat \<Rightarrow> td_tag list \<Rightarrow> bool \<times> AliasDiff \<Rightarrow> error + bool \<times> AliasDiff" where
  "scrape_tds i [] st = Inr st"
| "scrape_tds i (td # tds) st =
     (case scrape_td i td st of
        Inl err \<Rightarrow> Inl err
      | Inr st1 \<Rightarrow> scrape_tds i tds st1)"

fun scrape_trs :: "nat \<Rightarrow> tr_tag list \<Rightarrow> bool \<times> AliasDiff \<Rightarrow> error + bool \<times> AliasDiff" where
  "scrape_trs i [] st = Inr st"
| "scrape_trs i (tr # trs) st =
     (case scrape_tds i tr st of
        Inl err \<Rightarrow> Inl err
      | Inr st1 \<Rightarrow> scrape_trs (Suc i) trs st1)"

definition scrape_aliases_from_diff :: "html_parser \<Rightarrow> string \<Rightarrow> error + AliasDiff" where
  "scrape_aliases_from_diff parser diff =
     (if length diff = 0 then Inl (RuntimeError ''Cannot scrape links from empty string'')
      else (case parser diff of
              Inl err \<Rightarrow> Inl err
            | Inr None \<Rightarrow> Inl (RuntimeError ''xpath attribute missing'')
            | Inr (Some tr_tags) \<Rightarrow>
                (case scrape_trs 1 tr_tags (False, \<lparr>add = [], remove = []\<rparr>) of
                   Inl err \<Rightarrow> Inl err
                 | Inr st \<Rightarrow> Inr (snd st))))"

section \<open>Worlds and snapshots used in the examples\<close>

text \<open>A wiki in which every item page has the snapshot \<open>item\<close> and no client site resolves.\<close>

definition world_of :: "entity \<Rightarrow> world" where
  "world_of item =
     \<lparr>item_page = (\<lambda>qid. Inr item),
      project_page_of = (\<lambda>key value. Inl (OtherError ''unknown site''))\<rparr>"

text \<open>The same wiki with the descriptions of every item in the place of its labels.\<close>

definition descriptions_as_labels :: "world \<Rightarrow> world" where
  "descriptions_as_labels w =
     w\<lparr>item_page := (\<lambda>qid. case item_page w qid of
                               Inl err \<Rightarrow> Inl err
                             | Inr item \<Rightarrow> Inr (item\<lparr>labels := descriptions item\<rparr>))\<rparr>"

definition redirect_entity :: entity where
  "redirect_entity =
     \<lparr>item_exists = True, isRedirectPage = True, sitelinks = [], labels = [],
      descriptions = [], aliases = []\<rparr>"

definition deleted_entity :: entity where
  "deleted_entity =
     \<lparr>item_exists = False, isRedirectPage = False, sitelinks = [], labels = [],
      descriptions = [], aliases = []\<rparr>"

definition entity_with_aliases :: "(string \<times> string list) list \<Rightarrow> entity" where
  "entity_with_aliases als =
     \<lparr>item_exists = True, isRedirectPage = False, sitelinks = [], labels = [],
      descriptions = [], aliases = als\<rparr>"

definition entity_with_labels :: "(string \<times> string) list \<Rightarrow> entity" where
  "entity_with_labels ls =
     \<lparr>item_exists = True, isRedirectPage = False, sitelinks = [], labels = ls,
      descriptions = [], aliases = []\<rparr>"

definition entity_with_descriptions :: "(string \<times> string) list \<Rightarrow> entity" where
  "entity_with_descriptions ds =
     \<lparr>item_exists = True, isRedirectPage = False, sitelinks = [], labels = [],
      descriptions = ds, aliases = []\<rparr>"

text \<open>The aliases of an item in a language; none where the language has no entry.\<close>

definition aliases_of :: "entity \<Rightarrow> string \<Rightarrow> string list" where
  "aliases_of item key = (case map_of (aliases item) key of None \<Rightarrow> [] | Some cur \<Rightarrow> cur)"

section \<open>Properties of the decision functions\<close>

lemmas predicate_defs =
  should_patrol_sitelink_removal_def should_patrol_sitelink_addition_def
  should_patrol_label_removal_def should_patrol_label_modification_def
  should_patrol_description_removal_def should_patrol_description_modification_def
  should_patrol_alias_additions_def should_patrol_alias_removals_def
  should_patrol_alias_modifications_def

subsection \<open>Splitting and joining at comma, space\<close>

lemma split_comma_space_nonempty: "split_comma_space s \<noteq> []"
  by (induction s rule: split_comma_space.induct) (auto split: list.splits)

lemma split_comma_space_append:
  "split_comma_space (p @ '', '' @ t) = split_comma_space p @ split_comma_space t"
proof (induction p rule: split_comma_space.induct)
  case 1
  show ?case by simp
next
  case (2 c)
  show ?case by simp
next
  case (3 c d cs)
  show ?case
  proof (cases "c = CHR '','' \<and> d = CHR '' ''")
    case True
    with 3 show ?thesis by simp
  next
    case False
    obtain q qs where q: "split_comma_space (d # cs) = q # qs"
      using split_comma_space_nonempty [of "d # cs"] by (cases "split_comma_space (d # cs)") auto
    from False 3 q show ?thesis by simp
  qed
qed

lemma split_comma_space_no_comma:
  "CHR '','' \<notin> set s \<Longrightarrow> split_comma_space s = [s]"
  by (induction s rule: split_comma_space.induct) auto

lemma join_split_comma_space: "join '', '' (split_comma_space s) = s"
proof (induction s rule: split_comma_space.induct)
  case 1
  show ?case by simp
next
  case (2 c)
  show ?case by simp
next
  case (3 c d cs)
  show ?case
  proof (cases "c = CHR '','' \<and> d = CHR '' ''")
    case True
    obtain q qs where q: "split_comma_space cs = q # qs"
      using split_comma_space_nonempty [of cs] by (cases "split_comma_space cs") auto
    from True 3 q show ?thesis by simp
  next
    case False
    obtain q qs where q: "split_comma_space (d # cs) = q # qs"
      using split_comma_space_nonempty [of "d # cs"] by (cases "split_comma_space (d # cs)") auto
    from False 3 q show ?thesis by (cases qs) auto
  qed
qed

lemma appendices_no_comma: "a \<in> set appendices \<Longrightarrow> CHR '','' \<notin> set a"
  by (auto simp: appendices_def)

lemma split_with_appendix:
  assumes "a \<in> set appendices"
  shows "split_comma_space (p @ '', '' @ a) = split_comma_space p @ [a]"
proof -
  have "split_comma_space a = [a]"
    by (rule split_comma_space_no_comma [OF appendices_no_comma [OF assms]])
  then show ?thesis
    by (simp only: split_comma_space_append)
qed

lemma tidy_strips:
  assumes "a \<in> set appendices"
  shows "tidy_description (p @ '', '' @ a) = p"
proof -
  let ?d = "p @ '', '' @ a"
  have comma: "CHR '','' \<in> set ?d" by simp
  have parts: "split_comma_space ?d = split_comma_space p @ [a]"
    using assms by (rule split_with_appendix)
  have "tidy_description ?d = join '', '' (butlast (split_comma_space ?d))"
    unfolding tidy_description_def Let_def using comma assms
    by (simp only: parts last_snoc if_False if_True not_not simp_thms)
  also have "\<dots> = join '', '' (split_comma_space p)"
    by (simp only: parts butlast_snoc)
  also have "\<dots> = p" by (rule join_split_comma_space)
  finally show ?thesis .
qed

lemma join_snoc: "xs \<noteq> [] \<Longrightarrow> join sep (xs @ [a]) = join sep xs @ sep @ a"
  by (induction sep xs rule: join.induct) auto

lemma last_segment_suffix:
  assumes "CHR '','' \<in> set d" and "last (split_comma_space d) = a" and "CHR '','' \<notin> set a"
  shows "d = join '', '' (butlast (split_comma_space d)) @ '', '' @ a"
proof -
  let ?parts = "split_comma_space d"
  have ne: "?parts \<noteq> []" by (rule split_comma_space_nonempty)
  then have snoc: "?parts = butlast ?parts @ [a]"
    using assms(2) by (metis append_butlast_last_id)
  have "butlast ?parts \<noteq> []"
  proof
    assume "butlast ?parts = []"
    with snoc have "?parts = [a]" by simp
    then have "join '', '' ?parts = a" by simp
    then have "d = a" by (simp only: join_split_comma_space)
    with assms(1,3) show False by simp
  qed
  then have "join '', '' (butlast ?parts @ [a]) = join '', '' (butlast ?parts) @ '', '' @ a"
    by (rule join_snoc)
  then have "join '', '' ?parts = join '', '' (butlast ?parts) @ '', '' @ a"
    using snoc by simp
  then show ?thesis by (simp only: join_split_comma_space)
qed

lemma tidy_unchanged:
  "CHR '','' \<notin> set d \<or> last (split_comma_space d) \<notin> set appendices \<Longrightarrow> tidy_description d = d"
  by (auto simp: tidy_description_def Let_def)

lemma tidy_drops_last:
  assumes "CHR '','' \<in> set d" and "last (split_comma_space d) \<in> set appendices"
  shows "tidy_description d = join '', '' (butlast (split_comma_space d))"
    and "d = tidy_description d @ '', '' @ last (split_comma_space d)"
proof -
  show t: "tidy_description d = join '', '' (butlast (split_comma_space d))"
    using assms by (simp add: tidy_description_def Let_def)
  have "CHR '','' \<notin> set (last (split_comma_space d))"
    using assms(2) by (rule appendices_no_comma)
  from last_segment_suffix [OF assms(1) refl this]
  show "d = tidy_description d @ '', '' @ last (split_comma_space d)"
    by (simp only: t)
qed

lemma description_as_label_modification:
  "should_patrol_description_modification w qid key value =
     should_patrol_label_modification (descriptions_as_labels w) qid key (tidy_description value)"
  by (cases "item_page w qid")
    (simp_all add: should_patrol_description_modification_def should_patrol_label_modification_def
      descriptions_as_labels_def Let_def)

subsection \<open>A missing value\<close>

text \<open>
  Claim C4. For each of the three alias decision functions (additions, removals,
  set and update), a value of \<^verbatim>\<open>None\<close>, which stands for a diff that could not be fetched,
  gives the verdict deny, whatever the subject id, the key and the state of the wiki;
  the wiki is not even read.
\<close>

theorem alias_null_value_denies:
  "should_patrol_alias_additions w qid key None = Inr False
   \<and> should_patrol_alias_removals w qid key None = Inr False
   \<and> should_patrol_alias_modifications w qid key None = Inr False"
  by (simp add: should_patrol_alias_additions_def should_patrol_alias_removals_def
      should_patrol_alias_modifications_def)

subsection \<open>A subject that no longer exists\<close>

text \<open>
  Claim C5. When the live snapshot of the subject says that the item does not exist,
  every decision function other than the one for sitelink deletions returns deny,
  for every key and every value (for the alias functions also for a missing value).
\<close>

theorem missing_entity_denies:
  assumes "item_page w qid = Inr item" and "\<not> item_exists item"
  shows "should_patrol_sitelink_removal w qid key value = Inr False
   \<and> should_patrol_sitelink_addition w qid key value = Inr False
   \<and> should_patrol_label_removal w qid key value = Inr False
   \<and> should_patrol_label_modification w qid key value = Inr False
   \<and> should_patrol_description_removal w qid key value = Inr False
   \<and> should_patrol_description_modification w qid key value = Inr False
   \<and> should_patrol_alias_additions w qid key diff = Inr False
   \<and> should_patrol_alias_removals w qid key diff = Inr False
   \<and> should_patrol_alias_modifications w qid key diff = Inr False"
  using assms by (simp add: predicate_defs split: option.splits)

theorem missing_entity_denies_witness:
  "item_page (world_of deleted_entity) ''Q1'' = Inr deleted_entity
   \<and> \<not> item_exists deleted_entity
   \<and> should_patrol_sitelink_removal (world_of deleted_entity) ''Q1'' ''enwiki'' ''Page A'' = Inr False
   \<and> should_patrol_sitelink_addition (world_of deleted_entity) ''Q1'' ''enwiki'' ''Page A'' = Inr False
   \<and> should_patrol_label_removal (world_of deleted_entity) ''Q1'' ''en'' ''old'' = Inr False
   \<and> should_patrol_label_modification (world_of deleted_entity) ''Q1'' ''en'' ''new'' = Inr False
   \<and> should_patrol_description_removal (world_of deleted_entity) ''Q1'' ''en'' ''old'' = Inr False
   \<and> should_patrol_description_modification (world_of deleted_entity) ''Q1'' ''en'' ''new'' = Inr False
   \<and> should_patrol_alias_additions (world_of deleted_entity) ''Q1'' ''en''
        (Some \<lparr>add = [Some ''X''], remove = []\<rparr>) = Inr False
   \<and> should_patrol_alias_removals (world_of deleted_entity) ''Q1'' ''en''
        (Some \<lparr>add = [], remove = [Some ''X'']\<rparr>) = Inr False
   \<and> should_patrol_alias_modifications (world_of deleted_entity) ''Q1'' ''en''
        (Some \<lparr>add = [Some ''X''], remove = [Some ''Y'']\<rparr>) = Inr False"
proof -
  have a: "item_page (world_of deleted_entity) ''Q1'' = Inr deleted_entity"
    by (simp add: world_of_def)
  have b: "\<not> item_exists deleted_entity"
    by (simp add: deleted_entity_def)
  have c: "should_patrol_sitelink_removal (world_of deleted_entity) ''Q1'' ''enwiki'' ''Page A'' = Inr False
   \<and> should_patrol_sitelink_addition (world_of deleted_entity) ''Q1'' ''enwiki'' ''Page A'' = Inr False"
    using missing_entity_denies [OF a b, of "''enwiki''" "''Page A''"] by simp
  have d: "should_patrol_label_removal (world_of deleted_entity) ''Q1'' ''en'' ''old'' = Inr False
   \<and> should_patrol_description_removal (world_of deleted_entity) ''Q1'' ''en'' ''old'' = Inr False"
    using missing_entity_denies [OF a b, of "''en''" "''old''"] by simp
  have e: "should_patrol_label_modification (world_of deleted_entity) ''Q1'' ''en'' ''new'' = Inr False
   \<and> should_patrol_description_modification (world_of deleted_entity) ''Q1'' ''en'' ''new'' = Inr False"
    using missing_entity_denies [OF a b, of "''en''" "''new''"] by simp
  have f: "should_patrol_alias_additions (world_of deleted_entity) ''Q1'' ''en''
        (Some \<lparr>add = [Some ''X''], remove = []\<rparr>) = Inr False"
    using missing_entity_denies [OF a b, of "''en''" _ "Some \<lparr>add = [Some ''X''], remove = []\<rparr>"] by simp
  have g: "should_patrol_alias_removals (world_of deleted_entity) ''Q1'' ''en''
        (Some \<lparr>add = [], remove = [Some ''X'']\<rparr>) = Inr False"
    using missing_entity_denies [OF a b, of "''en''" _ "Some \<lparr>add = [], remove = [Some ''X'']\<rparr>"] by simp
  have h: "should_patrol_alias_modifications (world_of deleted_entity) ''Q1'' ''en''
        (Some \<lparr>add = [Some ''X''], remove = [Some ''Y'']\<rparr>) = Inr False"
    using missing_entity_denies [OF a b, of "''en''" _ "Some \<lparr>add = [Some ''X''], remove = [Some ''Y'']\<rparr>"] by simp
  from a b c d e f g h show ?thesis by simp
qed

subsection \<open>Label additions and modifications\<close>

text \<open>
  Claim C6. For a subject that exists and is not a redirect, the decision function for
  label additions and modifications approves exactly when the item has no labels at
  all, or none in the language of the intent, or a label in that language that differs
  from the edited value; when the live label in that language equals the edited value
  it denies.
\<close>

theorem label_modification_decision:
  assumes "item_page w qid = Inr item" and "item_exists item" and "\<not> isRedirectPage item"
  shows "should_patrol_label_modification w qid key value =
           Inr (labels item = [] \<or> map_of (labels item) key = None
                \<or> (\<exists>l. map_of (labels item) key = Some l \<and> l \<noteq> value))
         \<and> (map_of (labels item) key = Some value \<longrightarrow>
              should_patrol_label_modification w qid key value = Inr False)"
  using assms by (auto simp: should_patrol_label_modification_def split: option.splits)

theorem label_modification_decision_witness:
  "item_page (world_of (entity_with_labels [(''en'', ''new'')])) ''Q1''
     = Inr (entity_with_labels [(''en'', ''new'')])
   \<and> item_exists (entity_with_labels [(''en'', ''new'')])
   \<and> \<not> isRedirectPage (entity_with_labels [(''en'', ''new'')])
   \<and> should_patrol_label_modification (world_of (entity_with_labels [(''en'', ''new'')])) ''Q1'' ''en'' ''new''
       = Inr False
   \<and> should_patrol_label_modification (world_of (entity_with_labels [(''en'', ''new'')])) ''Q1'' ''en'' ''other''
       = Inr True
   \<and> should_patrol_label_modification (world_of (entity_with_labels [(''en'', ''new'')])) ''Q1'' ''de'' ''new''
       = Inr True"
proof -
  let ?e = "entity_with_labels [(''en'', ''new'')]"
  have a: "item_page (world_of ?e) ''Q1'' = Inr ?e" by (simp add: world_of_def)
  have b: "item_exists ?e" by (simp add: entity_with_labels_def)
  have c: "\<not> isRedirectPage ?e" by (simp add: entity_with_labels_def)
  have l: "labels ?e = [(''en'', ''new'')]" by (simp add: entity_with_labels_def)
  show ?thesis
    using a b c
      label_modification_decision [OF a b c, of "''en''" "''new''"]
      label_modification_decision [OF a b c, of "''en''" "''other''"]
      label_modification_decision [OF a b c, of "''de''" "''new''"]
    by (simp add: l)
qed

subsection \<open>Sitelink deletions\<close>

text \<open>
  Claim C9. The decision function for client-side sitelink deletions approves on every
  input: it takes no wiki to read, and its result does not depend on the subject id,
  the key or the value.
\<close>

theorem sitelink_deletion_always_approves:
  "should_patrol_sitelink_deletion qid key value = Inr True"
  by (simp add: should_patrol_sitelink_deletion_def)

subsection \<open>A subject that is now a redirect\<close>

text \<open>
  Claim C1, as amended. When the live snapshot of the subject says that the item exists
  and is a redirect, the decision functions for sitelink additions, label removals,
  label additions and modifications, description removals and description additions
  and modifications approve, for every key and value. The alias functions approve for
  a diff that was extracted, provided it is consistent with the kind: no removed entry
  for an addition, no added entry for a removal, any diff for a set or update. The
  function for sitelink removals denies on a redirect.
\<close>

theorem redirect_verdict_by_kind:
  assumes "item_page w qid = Inr item" and "item_exists item" and "isRedirectPage item"
  shows "should_patrol_sitelink_addition w qid key value = Inr True
   \<and> should_patrol_label_removal w qid key value = Inr True
   \<and> should_patrol_label_modification w qid key value = Inr True
   \<and> should_patrol_description_removal w qid key value = Inr True
   \<and> should_patrol_description_modification w qid key value = Inr True
   \<and> should_patrol_alias_additions w qid key (Some diff) = Inr (remove diff = [])
   \<and> should_patrol_alias_removals w qid key (Some diff) = Inr (add diff = [])
   \<and> should_patrol_alias_modifications w qid key (Some diff) = Inr True
   \<and> should_patrol_sitelink_removal w qid key value = Inr False"
  using assms by (simp add: predicate_defs)

theorem redirect_verdict_by_kind_witness:
  "item_page (world_of redirect_entity) ''Q1'' = Inr redirect_entity
   \<and> item_exists redirect_entity
   \<and> isRedirectPage redirect_entity
   \<and> should_patrol_sitelink_addition (world_of redirect_entity) ''Q1'' ''en'' ''Page A'' = Inr True
   \<and> should_patrol_label_removal (world_of redirect_entity) ''Q1'' ''en'' ''Page A'' = Inr True
   \<and> should_patrol_label_modification (world_of redirect_entity) ''Q1'' ''en'' ''Page A'' = Inr True
   \<and> should_patrol_description_removal (world_of redirect_entity) ''Q1'' ''en'' ''Page A'' = Inr True
   \<and> should_patrol_description_modification (world_of redirect_entity) ''Q1'' ''en'' ''Page A'' = Inr True
   \<and> should_patrol_alias_additions (world_of redirect_entity) ''Q1'' ''en''
        (Some \<lparr>add = [Some ''X''], remove = []\<rparr>) = Inr True
   \<and> should_patrol_alias_removals (world_of redirect_entity) ''Q1'' ''en''
        (Some \<lparr>add = [Some ''X''], remove = []\<rparr>) = Inr False
   \<and> should_patrol_alias_modifications (world_of redirect_entity) ''Q1'' ''en''
        (Some \<lparr>add = [Some ''X''], remove = []\<rparr>) = Inr True
   \<and> should_patrol_sitelink_removal (world_of redirect_entity) ''Q1'' ''en'' ''Page A'' = Inr False"
proof -
  have a: "item_page (world_of redirect_entity) ''Q1'' = Inr redirect_entity"
    by (simp add: world_of_def)
  have b: "item_exists redirect_entity"
    by (simp add: redirect_entity_def)
  have c: "isRedirectPage redirect_entity"
    by (simp add: redirect_entity_def)
  show ?thesis
    using a b c
      redirect_verdict_by_kind [OF a b c, of "''en''" "''Page A''" "\<lparr>add = [Some ''X''], remove = []\<rparr>"]
    by simp
qed

text \<open>
  The claim as it was stated fails for sitelink removals: on a redirect the function
  returns deny (line 284).
\<close>

theorem sitelink_removal_redirect_counterexample:
  "item_page (world_of redirect_entity) ''Q1'' = Inr redirect_entity
   \<and> item_exists redirect_entity
   \<and> isRedirectPage redirect_entity
   \<and> should_patrol_sitelink_removal (world_of redirect_entity) ''Q1'' ''enwiki'' ''Page A'' = Inr False"
  by (simp add: world_of_def redirect_entity_def should_patrol_sitelink_removal_def)

subsection \<open>Alias removals\<close>

text \<open>
  Claim C2, as amended. Given a diff, the decision function for alias removals denies
  when the diff has an added entry. Otherwise, for a subject that exists and is not a
  redirect, it approves exactly when the item has aliases in the language of the intent
  and every removed alias is among them again (none is still missing).
\<close>

theorem alias_removals_decision:
  "(add diff \<noteq> [] \<longrightarrow> should_patrol_alias_removals w qid key (Some diff) = Inr False)
   \<and> (item_page w qid = Inr item \<and> item_exists item \<and> \<not> isRedirectPage item \<and> add diff = [] \<longrightarrow>
        should_patrol_alias_removals w qid key (Some diff) =
          Inr (\<exists>cur. map_of (aliases item) key = Some cur
                     \<and> (\<forall>alias\<in>set (remove diff). alias_in alias cur)))"
  by (auto simp: should_patrol_alias_removals_def filter_empty_conv split: option.splits)

theorem alias_removals_decision_witness:
  "should_patrol_alias_removals (world_of (entity_with_aliases [(''en'', [''X''])])) ''Q1'' ''en''
      (Some \<lparr>add = [Some ''Z''], remove = [Some ''X'']\<rparr>) = Inr False
   \<and> should_patrol_alias_removals (world_of (entity_with_aliases [(''en'', [''X''])])) ''Q1'' ''en''
      (Some \<lparr>add = [], remove = [Some ''X'']\<rparr>) = Inr True
   \<and> should_patrol_alias_removals (world_of (entity_with_aliases [(''en'', [''X''])])) ''Q1'' ''en''
      (Some \<lparr>add = [], remove = [Some ''X'', Some ''Y'']\<rparr>) = Inr False"
proof -
  let ?e = "entity_with_aliases [(''en'', [''X''])]"
  have a: "item_page (world_of ?e) ''Q1'' = Inr ?e" by (simp add: world_of_def)
  have b: "item_exists ?e" "\<not> isRedirectPage ?e" "aliases ?e = [(''en'', [''X''])]"
    by (simp_all add: entity_with_aliases_def)
  show ?thesis
    using a b
      alias_removals_decision [of "\<lparr>add = [Some ''Z''], remove = [Some ''X'']\<rparr>" "world_of ?e" "''Q1''" "''en''" ?e]
      alias_removals_decision [of "\<lparr>add = [], remove = [Some ''X'']\<rparr>" "world_of ?e" "''Q1''" "''en''" ?e]
      alias_removals_decision [of "\<lparr>add = [], remove = [Some ''X'', Some ''Y'']\<rparr>" "world_of ?e" "''Q1''" "''en''" ?e]
    by (simp add: alias_in_def)
qed

text \<open>
  The claim as it was stated (approve exactly when every removed alias is still absent)
  fails in both directions: the removed alias is present again and the function
  approves; it is still absent and the function denies.
\<close>

theorem alias_removals_counterexample:
  "item_exists (entity_with_aliases [(''en'', [''X''])])
   \<and> \<not> isRedirectPage (entity_with_aliases [(''en'', [''X''])])
   \<and> map_of (aliases (entity_with_aliases [(''en'', [''X''])])) ''en'' = Some [''X'']
   \<and> should_patrol_alias_removals (world_of (entity_with_aliases [(''en'', [''X''])])) ''Q1'' ''en''
        (Some \<lparr>add = [], remove = [Some ''X'']\<rparr>) = Inr True
   \<and> map_of (aliases (entity_with_aliases [(''en'', [''Y''])])) ''en'' = Some [''Y'']
   \<and> should_patrol_alias_removals (world_of (entity_with_aliases [(''en'', [''Y''])])) ''Q1'' ''en''
        (Some \<lparr>add = [], remove = [Some ''X'']\<rparr>) = Inr False"
  by (simp add: world_of_def entity_with_aliases_def should_patrol_alias_removals_def alias_in_def)

subsection \<open>Alias sets and updates\<close>

text \<open>
  Claim C3, as amended. Given a diff and a subject that exists and is not a redirect,
  the decision function for alias sets and updates approves exactly when every removed
  alias is among the aliases of the item in the language of the intent again and no
  added alias is among them any more; otherwise it denies. It never raises.
\<close>

theorem alias_modifications_decision:
  assumes "item_page w qid = Inr item" and "item_exists item" and "\<not> isRedirectPage item"
  shows "should_patrol_alias_modifications w qid key (Some diff) =
           Inr ((\<forall>alias\<in>set (remove diff). alias_in alias (aliases_of item key))
                \<and> (\<forall>alias\<in>set (add diff). \<not> alias_in alias (aliases_of item key)))"
proof (cases "map_of (aliases item) key")
  case None
  show ?thesis
  proof (cases "remove diff")
    case Nil
    with None assms show ?thesis
      by (simp add: should_patrol_alias_modifications_def still_missing_def aliases_of_def alias_in_def)
  next
    case (Cons a as)
    with None assms show ?thesis
      by (auto simp: should_patrol_alias_modifications_def aliases_of_def alias_in_def)
  qed
next
  case (Some cur)
  then have "aliases item \<noteq> []" by auto
  with Some assms show ?thesis
    by (auto simp: should_patrol_alias_modifications_def still_missing_def aliases_of_def
        filter_empty_conv)
qed

theorem alias_modifications_decision_witness:
  "should_patrol_alias_modifications (world_of (entity_with_aliases [(''en'', [''X''])])) ''Q1'' ''en''
      (Some \<lparr>add = [Some ''Y''], remove = [Some ''X'']\<rparr>) = Inr True
   \<and> should_patrol_alias_modifications (world_of (entity_with_aliases [(''en'', [''X''])])) ''Q1'' ''en''
      (Some \<lparr>add = [Some ''X''], remove = []\<rparr>) = Inr False
   \<and> should_patrol_alias_modifications (world_of (entity_with_aliases [(''en'', [''X''])])) ''Q1'' ''de''
      (Some \<lparr>add = [Some ''X''], remove = []\<rparr>) = Inr True"
proof -
  let ?e = "entity_with_aliases [(''en'', [''X''])]"
  have a: "item_page (world_of ?e) ''Q1'' = Inr ?e" by (simp add: world_of_def)
  have b: "item_exists ?e" and c: "\<not> isRedirectPage ?e"
    by (simp_all add: entity_with_aliases_def)
  have d: "aliases ?e = [(''en'', [''X''])]"
    by (simp add: entity_with_aliases_def)
  show ?thesis
    using
      alias_modifications_decision [OF a b c, of "''en''" "\<lparr>add = [Some ''Y''], remove = [Some ''X'']\<rparr>"]
      alias_modifications_decision [OF a b c, of "''en''" "\<lparr>add = [Some ''X''], remove = []\<rparr>"]
      alias_modifications_decision [OF a b c, of "''de''" "\<lparr>add = [Some ''X''], remove = []\<rparr>"]
    by (simp add: alias_in_def aliases_of_def d)
qed

text \<open>
  The claim as it was stated (the removed aliases remain absent) fails: with the removed
  alias still absent and nothing added, the function denies.
\<close>

theorem alias_modifications_counterexample:
  "item_exists (entity_with_aliases [(''en'', [''Y''])])
   \<and> \<not> isRedirectPage (entity_with_aliases [(''en'', [''Y''])])
   \<and> map_of (aliases (entity_with_aliases [(''en'', [''Y''])])) ''en'' = Some [''Y'']
   \<and> should_patrol_alias_modifications (world_of (entity_with_aliases [(''en'', [''Y''])])) ''Q1'' ''en''
        (Some \<lparr>add = [], remove = [Some ''X'']\<rparr>) = Inr False"
  by (simp add: world_of_def entity_with_aliases_def should_patrol_alias_modifications_def
      still_missing_def alias_in_def)

subsection \<open>An alias removal with an empty diff\<close>

text \<open>
  Claim C10, as amended. For an alias removal whose diff has no added and no removed
  entry and a subject that exists, the decision function approves exactly when the item
  is a redirect or its aliases have an entry for the language of the intent, also an
  entry that holds no alias; it denies when the item is not a redirect and has no entry
  for the language. A missing value always denies.
\<close>

theorem empty_alias_removal_decision:
  assumes "item_page w qid = Inr item" and "item_exists item"
  shows "should_patrol_alias_removals w qid key (Some \<lparr>add = [], remove = []\<rparr>) =
           Inr (isRedirectPage item \<or> map_of (aliases item) key \<noteq> None)
         \<and> should_patrol_alias_removals w qid key None = Inr False"
  using assms by (auto simp: should_patrol_alias_removals_def split: option.splits)

theorem empty_alias_removal_decision_witness:
  "should_patrol_alias_removals (world_of (entity_with_aliases [(''en'', [''X''])])) ''Q1'' ''en''
      (Some \<lparr>add = [], remove = []\<rparr>) = Inr True
   \<and> should_patrol_alias_removals (world_of (entity_with_aliases [(''en'', [''X''])])) ''Q1'' ''de''
      (Some \<lparr>add = [], remove = []\<rparr>) = Inr False
   \<and> should_patrol_alias_removals (world_of (entity_with_aliases [(''en'', [''X''])])) ''Q1'' ''en''
      None = Inr False"
proof -
  let ?e = "entity_with_aliases [(''en'', [''X''])]"
  have a: "item_page (world_of ?e) ''Q1'' = Inr ?e" by (simp add: world_of_def)
  have b: "item_exists ?e" by (simp add: entity_with_aliases_def)
  have d: "aliases ?e = [(''en'', [''X''])]" "\<not> isRedirectPage ?e"
    by (simp_all add: entity_with_aliases_def)
  show ?thesis
    using
      empty_alias_removal_decision [OF a b, of "''en''"]
      empty_alias_removal_decision [OF a b, of "''de''"]
    by (simp add: d)
qed

text \<open>
  The claim as it was stated fails for an item whose entry for the language holds no
  alias: the item has no alias in that language, and the function approves.
\<close>

theorem empty_alias_removal_counterexample:
  "item_exists (entity_with_aliases [(''en'', [])])
   \<and> \<not> isRedirectPage (entity_with_aliases [(''en'', [])])
   \<and> map_of (aliases (entity_with_aliases [(''en'', [])])) ''en'' = Some []
   \<and> should_patrol_alias_removals (world_of (entity_with_aliases [(''en'', [])])) ''Q1'' ''en''
        (Some \<lparr>add = [], remove = []\<rparr>) = Inr True"
  by (simp add: world_of_def entity_with_aliases_def should_patrol_alias_removals_def)

subsection \<open>Description additions and modifications\<close>

text \<open>
  Claim C7. The decision function for description additions and modifications first
  normalizes the edited value with \<open>tidy_description\<close>: a value without a comma, or
  whose last segment after splitting at comma, space is not one of the three known
  suffixes, is left unchanged; otherwise the last segment is dropped, that is, the
  value is the result followed by comma, space and that suffix. In particular a value
  \<open>p\<close> followed by comma, space and a known suffix is normalized to \<open>p\<close>, whose
  segments are those of the value without the last. The comparison with the live
  description is then the one of the label function, with the descriptions in the
  place of the labels and the normalized value in the place of the value.
\<close>

theorem description_modification_normalizes:
  "(CHR '','' \<notin> set d \<longrightarrow> tidy_description d = d)
   \<and> (last (split_comma_space d) \<notin> set appendices \<longrightarrow> tidy_description d = d)
   \<and> (CHR '','' \<in> set d \<and> last (split_comma_space d) \<in> set appendices \<longrightarrow>
        tidy_description d = join '', '' (butlast (split_comma_space d))
        \<and> d = tidy_description d @ '', '' @ last (split_comma_space d))
   \<and> (a \<in> set appendices \<longrightarrow>
        tidy_description (p @ '', '' @ a) = p
        \<and> split_comma_space (p @ '', '' @ a) = split_comma_space p @ [a])
   \<and> should_patrol_description_modification w qid key value =
        should_patrol_label_modification (descriptions_as_labels w) qid key (tidy_description value)"
  using tidy_unchanged [of d] tidy_drops_last [of d] tidy_strips [of a p] split_with_appendix [of a p]
    description_as_label_modification [of w qid key "value"]
  by blast

theorem description_modification_normalizes_witness:
  "tidy_description ''painter'' = ''painter''
   \<and> tidy_description ''poet, painter'' = ''poet, painter''
   \<and> tidy_description ''poet, painter, #suggestededit-add 1.0'' = ''poet, painter''
   \<and> split_comma_space ''poet, painter, #suggestededit-add 1.0''
        = [''poet'', ''painter'', ''#suggestededit-add 1.0'']
   \<and> should_patrol_description_modification
        (world_of (entity_with_descriptions [(''en'', ''poet, painter'')]))
        ''Q1'' ''en'' ''poet, painter, #suggestededit-add 1.0'' = Inr False
   \<and> should_patrol_description_modification
        (world_of (entity_with_descriptions [(''en'', ''poet'')]))
        ''Q1'' ''en'' ''poet, painter, #suggestededit-add 1.0'' = Inr True"
proof -
  let ?a = "''#suggestededit-add 1.0''"
  let ?v = "''poet, painter, #suggestededit-add 1.0''"
  have mem: "?a \<in> set appendices" by (simp add: appendices_def)
  have not_mem: "''painter'' \<notin> set appendices" by (simp add: appendices_def)
  have v: "?v = ''poet, painter'' @ '', '' @ ?a" by simp
  have t1: "tidy_description ''painter'' = ''painter''"
    using description_modification_normalizes [of "''painter''"] by simp
  have t2: "tidy_description ''poet, painter'' = ''poet, painter''"
    using description_modification_normalizes [of "''poet, painter''"] not_mem by simp
  have t3: "tidy_description ?v = ''poet, painter''"
    and s3: "split_comma_space ?v = [''poet'', ''painter'', ?a]"
    using description_modification_normalizes [of _ ?a "''poet, painter''"] mem by simp_all
  have d1: "should_patrol_description_modification
        (world_of (entity_with_descriptions [(''en'', ''poet, painter'')])) ''Q1'' ''en'' ?v = Inr False"
    unfolding description_modification_normalizes [THEN conjunct2, THEN conjunct2, THEN conjunct2, THEN conjunct2]
      t3
    by (simp add: should_patrol_label_modification_def descriptions_as_labels_def world_of_def
        entity_with_descriptions_def)
  have d2: "should_patrol_description_modification
        (world_of (entity_with_descriptions [(''en'', ''poet'')])) ''Q1'' ''en'' ?v = Inr True"
    unfolding description_modification_normalizes [THEN conjunct2, THEN conjunct2, THEN conjunct2, THEN conjunct2]
      t3
    by (simp add: should_patrol_label_modification_def descriptions_as_labels_def world_of_def
        entity_with_descriptions_def)
  from t1 t2 t3 s3 d1 d2 show ?thesis by simp
qed

end
